theory Spec2Isabelle
  imports Main
begin

text \<open>
  The forum scraper of a chat bot: the extraction of a user's profile from the pages of a
  forum (\<open>GetUserProfilePage\<close> and its field extractors), the look-up of a user's
  latest post (\<open>getLatestPost\<close>), and the polling loop that calls back when the
  user's post count has grown (\<open>newPostAlert\<close>).
\<close>

section \<open>Values that cross function boundaries\<close>

text \<open>
  A Go function of the scraper returns a pair of a value and an \<open>error\<close> that may be
  \<open>nil\<close>, or it does not return at all because a run-time panic unwinds it. The pair
  is modelled as \<open>'a \<times> error option\<close> (\<open>None\<close> for \<open>nil\<close>), a panic as the left
  injection of a sum.
\<close>

datatype numerr = ErrSyntax | ErrRange

datatype error =
    New string                    \<comment> \<open>\<open>errors.New(msg)\<close>\<close>
  | Wrap error string             \<comment> \<open>\<open>errors.Wrap(err, msg)\<close> with \<open>err \<noteq> nil\<close>\<close>
  | NumError string string numerr \<comment> \<open>\<open>*strconv.NumError{Func, Num, Err}\<close>\<close>

datatype panic =
    IndexOutOfRange               \<comment> \<open>\<open>xs[i]\<close> with \<open>i \<ge> len(xs)\<close>\<close>
  | SliceBoundsOutOfRange         \<comment> \<open>\<open>s[i:]\<close> with \<open>i > len(s)\<close>\<close>
  | CompilePanic string           \<comment> \<open>\<open>xmlpath.MustCompile\<close> on a rejected expression\<close>

type_synonym 'a returns = "panic + ('a \<times> error option)"

section \<open>The Go standard library functions the scraper calls\<close>

text \<open>\<open>strings.HasPrefix\<close> and \<open>strings.TrimPrefix\<close>.\<close>

definition HasPrefix :: "string \<Rightarrow> string \<Rightarrow> bool" where
  "HasPrefix s pre = (take (length pre) s = pre)"

definition TrimPrefix :: "string \<Rightarrow> string \<Rightarrow> string" where
  "TrimPrefix s pre = (if HasPrefix s pre then drop (length pre) s else s)"

text \<open>\<open>strings.Trim(s, cutset)\<close>: drops the leading and the trailing characters that
  belong to \<open>cutset\<close>.\<close>

definition Trim :: "string \<Rightarrow> string \<Rightarrow> string" where
  "Trim s cutset =
     rev (dropWhile (\<lambda>c. c \<in> set cutset) (rev (dropWhile (\<lambda>c. c \<in> set cutset) s)))"

text \<open>\<open>strings.Index(s, substr)\<close>: the position of the first occurrence of \<open>substr\<close>
  in \<open>s\<close>, or \<open>-1\<close>.\<close>

fun Index :: "string \<Rightarrow> string \<Rightarrow> int" where
  "Index [] substr = (if substr = [] then 0 else - 1)"
| "Index (c # s) substr =
     (if HasPrefix (c # s) substr then 0
      else (let i = Index s substr in if i < 0 then - 1 else i + 1))"

text \<open>\<open>strings.Replace(s, old, new, -1)\<close> for a non-empty \<open>old\<close> (the scraper only
  calls it with \<open>","\<close>): every non-overlapping occurrence, from the left.\<close>

function ReplaceAll :: "string \<Rightarrow> string \<Rightarrow> string \<Rightarrow> string" where
  "ReplaceAll [] old new = []"
| "ReplaceAll (c # s) old new =
     (if old \<noteq> [] \<and> HasPrefix (c # s) old
      then new @ ReplaceAll (drop (length old) (c # s)) old new
      else c # ReplaceAll s old new)"
  by pat_completeness auto
termination
  by (relation "measure (\<lambda>(s, old, new). length s)") auto

text \<open>\<open>strings.Split(s, sep)\<close> for a non-empty \<open>sep\<close> (the scraper only calls it with
  \<open>"#"\<close>): the pieces of \<open>s\<close> between the occurrences of \<open>sep\<close>; a string without
  \<open>sep\<close> gives the one-element list of itself.\<close>

function Split :: "string \<Rightarrow> string \<Rightarrow> string list" where
  "Split [] sep = [[]]"
| "Split (c # s) sep =
     (if sep \<noteq> [] \<and> HasPrefix (c # s) sep
      then [] # Split (drop (length sep) (c # s)) sep
      else (case Split s sep of
              [] \<Rightarrow> [[c]]
            | p # ps \<Rightarrow> (c # p) # ps))"
  by pat_completeness auto
termination
  by (relation "measure (\<lambda>(s, sep). length s)") auto

text \<open>Indexing \<open>xs[i]\<close> and slicing \<open>s[i:]\<close> check their bounds at run time.\<close>

definition index_at :: "'a list \<Rightarrow> nat \<Rightarrow> panic + 'a" where
  "index_at xs i = (if i < length xs then Inr (xs ! i) else Inl IndexOutOfRange)"

definition slice_from :: "string \<Rightarrow> int \<Rightarrow> panic + string" where
  "slice_from s i =
     (if 0 \<le> i \<and> i \<le> int (length s) then Inr (drop (nat i) s)
      else Inl SliceBoundsOutOfRange)"

text \<open>\<open>strconv.Atoi\<close> on a 64-bit platform: an optional sign, then one or more decimal
  digits, read from the left. The first character that is no digit is a syntax error;
  digits that have left the range of \<open>uint64\<close> before such a character is met, or a
  value outside the range of \<open>int\<close> in the end, are a range error.\<close>

definition is_digit :: "char \<Rightarrow> bool" where
  "is_digit c = ((48 :: nat) \<le> of_char c \<and> of_char c \<le> (57 :: nat))"

fun scanDigits :: "string \<Rightarrow> int \<Rightarrow> numerr + int" where
  "scanDigits [] n = Inr n"
| "scanDigits (c # cs) n =
     (if \<not> is_digit c then Inl ErrSyntax
      else if 2 ^ 64 - 1 < 10 * n + (of_char c - 48) then Inl ErrRange
      else scanDigits cs (10 * n + (of_char c - 48)))"

definition Atoi :: "string \<Rightarrow> error + int" where
  "Atoi s =
     (let neg = (s \<noteq> [] \<and> hd s = CHR ''-'');
          ds = (if s \<noteq> [] \<and> (hd s = CHR ''-'' \<or> hd s = CHR ''+'') then tl s else s)
      in if ds = [] then Inl (NumError ''Atoi'' s ErrSyntax)
         else (case scanDigits ds 0 of
                 Inl e \<Rightarrow> Inl (NumError ''Atoi'' s e)
               | Inr un \<Rightarrow>
                   if \<not> neg \<and> 2 ^ 63 \<le> un then Inl (NumError ''Atoi'' s ErrRange)
                   else if neg \<and> 2 ^ 63 < un then Inl (NumError ''Atoi'' s ErrRange)
                   else Inr (if neg then - un else un)))"

section \<open>The external collaborators\<close>

text \<open>
  The scraper reaches the outside world through two collaborators that are not part of it:
  \<open>app.GetHTMLRoot\<close>, which fetches a URL and parses the page, and the
  \<open>gopkg.in/xmlpath.v2\<close> query engine. Both are parameters of the model. A node of
  a parsed page has type \<open>'n\<close>. \<open>Compile\<close> tells which expressions the engine accepts,
  \<open>Iter\<close> gives the nodes an expression matches below a context node, in document
  order, and \<open>NodeString\<close> the string value of a node. One environment describes the
  world during one call of an exported operation.
\<close>

record 'n env =
  GetHTMLRoot :: "string \<Rightarrow> error + 'n"
  Compile :: "string \<Rightarrow> bool"
  Iter :: "string \<Rightarrow> 'n \<Rightarrow> 'n list"
  NodeString :: "'n \<Rightarrow> string"

text \<open>\<open>xmlpath.MustCompile\<close> panics where \<open>xmlpath.Compile\<close> returns an error. A
  compiled path is represented by its expression.\<close>

definition MustCompile :: "'n env \<Rightarrow> string \<Rightarrow> panic + string" where
  "MustCompile ev expr = (if Compile ev expr then Inr expr else Inl (CompilePanic expr))"

text \<open>\<open>Path.String\<close> is the string value of the first matching node and \<open>true\<close>, or
  the empty string and \<open>false\<close>; \<open>Path.Exists\<close> tells whether \<open>Path.Iter\<close> yields a
  node.\<close>

definition PathString :: "'n env \<Rightarrow> string \<Rightarrow> 'n \<Rightarrow> string \<times> bool" where
  "PathString ev path context =
     (case Iter ev path context of [] \<Rightarrow> ([], False) | n # _ \<Rightarrow> (NodeString ev n, True))"

definition PathExists :: "'n env \<Rightarrow> string \<Rightarrow> 'n \<Rightarrow> bool" where
  "PathExists ev path context = (Iter ev path context \<noteq> [])"

section \<open>The profile data\<close>

text \<open>The two fields of a \<open>VisitorMessage\<close> are \<open>UserName\<close> and \<open>Message\<close> in the
  source; the first is called \<open>Author\<close> here, since \<open>UserProfile\<close> has a field
  \<open>UserName\<close> of its own.\<close>

record VisitorMessage =
  Author :: string
  Message :: string

record UserProfile =
  UserName :: string
  JoinDate :: string
  TotalPosts :: int
  Reputation :: int
  BioText :: string
  VisitorMessages :: "VisitorMessage list"
  Errors :: "error list"

text \<open>The zero value of \<open>UserProfile\<close>, which \<open>var result UserProfile\<close> declares.\<close>

definition zero_UserProfile :: UserProfile where
  "zero_UserProfile =
     \<lparr>UserName = [], JoinDate = [], TotalPosts = 0, Reputation = 0, BioText = [],
      VisitorMessages = [], Errors = []\<rparr>"

section \<open>The query expressions\<close>

definition userNamePath :: string where
  \<open>userNamePath = ''//*[@id="username_box"]/h1''\<close>

definition joinDatePath :: string where
  \<open>joinDatePath = ''//*[@id="collapseobj_stats"]/div/*/ul/*[contains(.,'Join Date: ')]''\<close>

definition totalPostsPath :: string where
  \<open>totalPostsPath = ''//*[@id="collapseobj_stats"]/div/fieldset[1]/ul/li[1]''\<close>

definition firstPostHrefPath :: string where
  \<open>firstPostHrefPath = ''//td[@class="alt1"]/div[@class="alt2"]/div/em/a/@href''\<close>

definition reputationPath :: "string \<Rightarrow> string" where
  \<open>reputationPath fragment =
     ''//table[@id="'' @ fragment @
     ''"]/tbody/tr[@valign="top"]/td[@class="alt2"]/*/*[contains(text(),'Reputation: ')]''\<close>

definition userBioPath :: string where
  \<open>userBioPath = ''//*[@id="collapseobj_aboutme"]/div/ul/li[1]/dl/dd[1]''\<close>

definition mainPath :: string where
  \<open>mainPath = ''//*[@id="message_list"]/*''\<close>

definition userPath :: string where
  \<open>userPath = ''.//div[2]/div[1]/div/a''\<close>

definition textPath :: string where
  \<open>textPath = ''.//div[2]/div[2]''\<close>

definition titlePath :: string where
  \<open>titlePath = ''//em/a''\<close>

definition latestHrefPath :: string where
  \<open>latestHrefPath = ''//em/a/@href''\<close>

definition postMessagePath :: "string \<Rightarrow> string" where
  \<open>postMessagePath post = ''//div[@id="post_message_'' @ post @ ''"]''\<close>

section \<open>The field extractors\<close>

definition getUserName :: "'n env \<Rightarrow> 'n \<Rightarrow> string returns" where
  "getUserName ev root =
     (case MustCompile ev userNamePath of
        Inl p \<Rightarrow> Inl p
      | Inr path \<Rightarrow>
          (case PathString ev path root of
             (result, ok) \<Rightarrow>
               if \<not> ok then Inr (result, Some (New ''user name xmlpath did not return a result''))
               else Inr (Trim result ''\<newline> '', None)))"

definition getJoinDate :: "'n env \<Rightarrow> 'n \<Rightarrow> string returns" where
  "getJoinDate ev root =
     (case MustCompile ev joinDatePath of
        Inl p \<Rightarrow> Inl p
      | Inr path \<Rightarrow>
          (case PathString ev path root of
             (result, ok) \<Rightarrow>
               if \<not> ok then Inr (result, Some (New ''join date xmlpath did not return a result''))
               else Inr (TrimPrefix result ''Join Date: '', None)))"

definition getTotalPosts :: "'n env \<Rightarrow> 'n \<Rightarrow> int returns" where
  "getTotalPosts ev root =
     (case MustCompile ev totalPostsPath of
        Inl p \<Rightarrow> Inl p
      | Inr path \<Rightarrow>
          (case PathString ev path root of
             (posts, ok) \<Rightarrow>
               if \<not> ok then Inr (0, Some (New ''total posts xmlpath did not return a result''))
               else (case Atoi (ReplaceAll (TrimPrefix posts ''Total Posts: '') '','' []) of
                       Inl err \<Rightarrow> Inr (0, Some (New ''cannot convert posts to integer''))
                     | Inr result \<Rightarrow> Inr (result, None))))"

definition getReputation :: "'n env \<Rightarrow> string \<Rightarrow> int returns" where
  "getReputation ev forumUserID =
     (case GetHTMLRoot ev (''http://forum.sa-mp.com/search.php?do=finduser&u='' @ forumUserID) of
        Inl err \<Rightarrow> Inr (0, Some (Wrap err ''cannot get user's posts''))
      | Inr root \<Rightarrow>
     (case MustCompile ev firstPostHrefPath of
        Inl p \<Rightarrow> Inl p
      | Inr path \<Rightarrow>
     (case PathString ev path root of
        (href, ok) \<Rightarrow>
          if \<not> ok then Inr (0, Some (New ''cannot get user posts''))
          else
     (case GetHTMLRoot ev (''http://forum.sa-mp.com/'' @ href) of
        Inl err \<Rightarrow> Inr (0, Some (Wrap err ''cannot get user's post in a topic''))
      | Inr root' \<Rightarrow>
     (case index_at (Split href ''#'') 1 of
        Inl p \<Rightarrow> Inl p
      | Inr fragment \<Rightarrow>
     (case MustCompile ev (reputationPath fragment) of
        Inl p \<Rightarrow> Inl p
      | Inr path' \<Rightarrow>
     (case PathString ev path' root' of
        (reputation, ok') \<Rightarrow>
          if \<not> ok' then Inr (0, Some (New ''cannot get reputation field from post''))
          else (case Atoi (ReplaceAll (TrimPrefix reputation ''Reputation: '') '','' []) of
                  Inl err \<Rightarrow> Inr (0, Some (Wrap err ''cannot convert reputation to integer''))
                | Inr result \<Rightarrow> Inr (result, None)))))))))"

definition getUserBio :: "'n env \<Rightarrow> 'n \<Rightarrow> string returns" where
  "getUserBio ev root =
     (case MustCompile ev userBioPath of
        Inl p \<Rightarrow> Inl p
      | Inr path \<Rightarrow>
          (case PathString ev path root of
             (result, ok) \<Rightarrow>
               if \<not> ok then Inr (result, Some (New ''user bio xmlpath did not return a result''))
               else Inr (result, None)))"

text \<open>The loop over the message blocks: \<open>messageBlock.Next()\<close> walks the nodes that
  \<open>mainPath.Iter(root)\<close> yields; \<open>continue\<close> leaves \<open>result\<close> as it is.\<close>

fun messageLoop :: "'n env \<Rightarrow> string \<Rightarrow> string \<Rightarrow> 'n list \<Rightarrow> VisitorMessage list
    \<Rightarrow> VisitorMessage list" where
  "messageLoop ev upath tpath [] result = result"
| "messageLoop ev upath tpath (node # rest) result =
     (case PathString ev upath node of
        (user, ok) \<Rightarrow>
          if \<not> ok then messageLoop ev upath tpath rest result
          else (case PathString ev tpath node of
                  (text, ok') \<Rightarrow>
                    if \<not> ok' then messageLoop ev upath tpath rest result
                    else messageLoop ev upath tpath rest
                           (result @ [\<lparr>Author = user, Message = text\<rparr>])))"

definition getFirstTenUserVisitorMessages :: "'n env \<Rightarrow> 'n \<Rightarrow> VisitorMessage list returns" where
  "getFirstTenUserVisitorMessages ev root =
     (case MustCompile ev mainPath of
        Inl p \<Rightarrow> Inl p
      | Inr mpath \<Rightarrow>
     (case MustCompile ev userPath of
        Inl p \<Rightarrow> Inl p
      | Inr upath \<Rightarrow>
     (case MustCompile ev textPath of
        Inl p \<Rightarrow> Inl p
      | Inr tpath \<Rightarrow>
          if \<not> PathExists ev mpath root
          then Inr ([], Some (New ''visitor messages xmlpath did not return a result''))
          else Inr (messageLoop ev upath tpath (Iter ev mpath root) [], None))))"

section \<open>The profile assembler\<close>

text \<open>\<open>if err != nil { result.Errors = append(result.Errors, err) }\<close>\<close>

definition appendError :: "error option \<Rightarrow> UserProfile \<Rightarrow> UserProfile" where
  "appendError err result =
     (case err of None \<Rightarrow> result | Some e \<Rightarrow> result\<lparr>Errors := Errors result @ [e]\<rparr>)"

definition GetUserProfilePage :: "'n env \<Rightarrow> string \<Rightarrow> UserProfile returns" where
  "GetUserProfilePage ev url =
     (let result = zero_UserProfile in
      case GetHTMLRoot ev url of
        Inl err \<Rightarrow> Inr (result, Some (Wrap err ''failed to get HTML root for user page''))
      | Inr root \<Rightarrow>
     (case getUserName ev root of
        Inl p \<Rightarrow> Inl p
      | Inr (name, err) \<Rightarrow>
     (let result = result\<lparr>UserName := name\<rparr> in
      case err of
        Some e \<Rightarrow> Inr (result, Some (Wrap e ''url did not lead to a valid user page''))
      | None \<Rightarrow>
     (case getJoinDate ev root of
        Inl p \<Rightarrow> Inl p
      | Inr (date, err) \<Rightarrow>
     (let result = appendError err (result\<lparr>JoinDate := date\<rparr>) in
      case getTotalPosts ev root of
        Inl p \<Rightarrow> Inl p
      | Inr (posts, err) \<Rightarrow>
     (let result = appendError err (result\<lparr>TotalPosts := posts\<rparr>) in
      case getReputation ev (TrimPrefix url ''http://forum.sa-mp.com/member.php?u='') of
        Inl p \<Rightarrow> Inl p
      | Inr (reputation, err) \<Rightarrow>
     (let result = appendError err (result\<lparr>Reputation := reputation\<rparr>) in
      case getUserBio ev root of
        Inl p \<Rightarrow> Inl p
      | Inr (bio, err) \<Rightarrow>
     (let result = appendError err (result\<lparr>BioText := bio\<rparr>) in
      case getFirstTenUserVisitorMessages ev root of
        Inl p \<Rightarrow> Inl p
      | Inr (messages, err) \<Rightarrow>
     (let result = appendError err (result\<lparr>VisitorMessages := messages\<rparr>) in
      Inr (result, None))))))))))"

section \<open>The latest post\<close>

text \<open>The expression \<open>href[strings.Index(href, "#post")+5:]\<close> of \<open>getLatestPost\<close>.\<close>

definition postOf :: "string \<Rightarrow> panic + string" where
  "postOf href = slice_from href (Index href ''#post'' + 5)"

text \<open>The result is the title and the message; the error comes with two empty strings.\<close>

definition getLatestPost :: "'n env \<Rightarrow> string \<Rightarrow> (string \<times> string) returns" where
  "getLatestPost ev ident =
     (case GetHTMLRoot ev (''http://forum.sa-mp.com/search.php?do=finduser&u='' @ ident) of
        Inl err \<Rightarrow> Inr (([], []), Some (Wrap err ''cannot get user's posts''))
      | Inr root \<Rightarrow>
     (case MustCompile ev titlePath of
        Inl p \<Rightarrow> Inl p
      | Inr path \<Rightarrow>
     (case PathString ev path root of
        (title, ok) \<Rightarrow>
          if \<not> ok then Inr (([], []), Some (New ''cannot get the title of the first post''))
          else
     (case MustCompile ev latestHrefPath of
        Inl p \<Rightarrow> Inl p
      | Inr path' \<Rightarrow>
     (case PathString ev path' root of
        (href, ok') \<Rightarrow>
          if \<not> ok' then Inr (([], []), Some (New ''cannot get user posts''))
          else
     (case GetHTMLRoot ev (''http://forum.sa-mp.com/'' @ href) of
        Inl err \<Rightarrow> Inr (([], []), Some (Wrap err ''cannot get user post url''))
      | Inr root' \<Rightarrow>
     (case postOf href of
        Inl p \<Rightarrow> Inl p
      | Inr post \<Rightarrow>
     (case MustCompile ev (postMessagePath post) of
        Inl p \<Rightarrow> Inl p
      | Inr path'' \<Rightarrow>
     (case PathString ev path'' root' of
        (message, ok'') \<Rightarrow>
          if \<not> ok'' then Inr (([], []), Some (New ''cannot get the post''))
          else Inr ((title, message), None))))))))))"

section \<open>The change detector\<close>

text \<open>
  \<open>newPostAlert\<close> starts a goroutine that runs its loop body once per tick of a
  ticker, for ever. The state of the loop is the variable \<open>lastPostCount\<close>. The
  callback \<open>fn\<close> is an opaque action: \<open>fnCalls\<close> counts how often the loop has invoked
  it. \<open>logged\<close> collects the messages given to \<open>logger.Error\<close>; the two
  \<open>fmt.Println\<close> calls change nothing the loop reads and are left out.
\<close>

record PollState =
  lastPostCount :: int
  fnCalls :: nat
  logged :: "string list"

text \<open>One run of the loop body, in the world \<open>ev\<close> of that tick. A panic inside
  \<open>GetUserProfilePage\<close> unwinds the goroutine.\<close>

definition tick :: "'n env \<Rightarrow> string \<Rightarrow> PollState \<Rightarrow> panic + PollState" where
  "tick ev ident st =
     (case GetUserProfilePage ev (''http://forum.sa-mp.com/member.php?u='' @ ident) of
        Inl p \<Rightarrow> Inl p
      | Inr (profile, err) \<Rightarrow>
          (let st1 = (if err \<noteq> None
                      then st\<lparr>logged := logged st @ [''failed to poll user profile'']\<rparr>
                      else st)
           in if lastPostCount st1 = - 1
              then Inr (st1\<lparr>lastPostCount := TotalPosts profile\<rparr>)
              else if lastPostCount st1 < TotalPosts profile
              then Inr (st1\<lparr>fnCalls := fnCalls st1 + 1, lastPostCount := TotalPosts profile\<rparr>)
              else Inr st1))"

text \<open>The ticks of a run, one world per tick, from the state the goroutine starts in.\<close>

fun ticks :: "string \<Rightarrow> 'n env list \<Rightarrow> PollState \<Rightarrow> panic + PollState" where
  "ticks ident [] st = Inr st"
| "ticks ident (ev # evs) st =
     (case tick ev ident st of Inl p \<Rightarrow> Inl p | Inr st' \<Rightarrow> ticks ident evs st')"

definition initialPollState :: PollState where
  "initialPollState = \<lparr>lastPostCount = - 1, fnCalls = 0, logged = []\<rparr>"

definition newPostAlert :: "string \<Rightarrow> 'n env list \<Rightarrow> panic + PollState" where
  "newPostAlert ident evs = ticks ident evs initialPollState"

text \<open>The loop body tells its two states apart by the test \<open>lastPostCount == -1\<close>.\<close>

datatype phase = Uninitialized | Tracking

definition phase :: "PollState \<Rightarrow> phase" where
  "phase st = (if lastPostCount st = - 1 then Uninitialized else Tracking)"

text \<open>The data model of the specification has total posts from \<open>0\<close> upwards. A world is
  within it for a user when the profile that \<open>GetUserProfilePage\<close> returns there, with
  or without an error, has no negative total posts.\<close>

definition nonNegativePosts :: "'n env \<Rightarrow> string \<Rightarrow> bool" where
  "nonNegativePosts ev ident =
     (case GetUserProfilePage ev (''http://forum.sa-mp.com/member.php?u='' @ ident) of
        Inl p \<Rightarrow> True
      | Inr (profile, err) \<Rightarrow> 0 \<le> TotalPosts profile)"

text \<open>The errors among the five that the field extractors return, in their order.\<close>

definition errorsOf :: "error option list \<Rightarrow> error list" where
  "errorsOf errs = concat (map (\<lambda>err. case err of None \<Rightarrow> [] | Some e \<Rightarrow> [e]) errs)"

section \<open>What the specification says of the visitor messages\<close>

text \<open>A message block is complete when both its author query and its body query find
  a node; the message of a complete block pairs the two string values. The
  specification asks for the messages of the complete blocks, in source order.\<close>

definition completeBlock :: "'n env \<Rightarrow> 'n \<Rightarrow> bool" where
  "completeBlock ev node = (Iter ev userPath node \<noteq> [] \<and> Iter ev textPath node \<noteq> [])"

definition messageOfBlock :: "'n env \<Rightarrow> 'n \<Rightarrow> VisitorMessage" where
  "messageOfBlock ev node =
     \<lparr>Author = NodeString ev (hd (Iter ev userPath node)),
      Message = NodeString ev (hd (Iter ev textPath node))\<rparr>"

definition specVisitorMessages :: "'n env \<Rightarrow> 'n \<Rightarrow> VisitorMessage list" where
  "specVisitorMessages ev root =
     map (messageOfBlock ev) (filter (completeBlock ev) (Iter ev mainPath root))"

text \<open>\<open>contains s sub\<close>: the string \<open>sub\<close> occurs in \<open>s\<close>.\<close>

fun contains :: "string \<Rightarrow> string \<Rightarrow> bool" where
  "contains [] sub = (sub = [])"
| "contains (c # s) sub = (HasPrefix (c # s) sub \<or> contains s sub)"

section \<open>Sample worlds\<close>

text \<open>
  In the sample worlds a node is a string that is its own string value, a page is
  named by its root node, every expression compiles, and the matches of an expression
  are looked up in a table. A URL that is not listed cannot be fetched.
\<close>

definition tableIter :: "((string \<times> string) \<times> string list) list \<Rightarrow> string \<Rightarrow> string
    \<Rightarrow> string list" where
  "tableIter table path context =
     (case map_of table (path, context) of None \<Rightarrow> [] | Some nodes \<Rightarrow> nodes)"

definition forum :: "(string \<times> string) list \<Rightarrow> ((string \<times> string) \<times> string list) list
    \<Rightarrow> string env" where
  "forum pages table =
     \<lparr>GetHTMLRoot = (\<lambda>url. case map_of pages url of
                              None \<Rightarrow> Inl (New ''no such page'')
                            | Some root \<Rightarrow> Inr root),
      Compile = (\<lambda>expr. True),
      Iter = tableIter table,
      NodeString = (\<lambda>node. node)\<rparr>"

definition profileURL :: string where
  "profileURL = ''http://forum.sa-mp.com/member.php?u=3''"

definition listingURL :: string where
  "listingURL = ''http://forum.sa-mp.com/search.php?do=finduser&u=3''"

text \<open>No page can be fetched.\<close>

definition offline :: "string env" where
  "offline = forum [] []"

text \<open>The profile page shows the user name and the given line of total posts, and
  nothing else; the listing of the user's posts cannot be fetched.\<close>

definition profileShowing :: "string \<Rightarrow> string env" where
  "profileShowing posts =
     forum [(profileURL, ''profile'')]
           [((userNamePath, ''profile''), [''Kalcor'']),
            ((totalPostsPath, ''profile''), [posts])]"

text \<open>The profile page shows only the user name; the first post of the listing is
  referred to without a fragment, and the page it refers to can be fetched.\<close>

definition noFragment :: "string env" where
  "noFragment =
     forum [(profileURL, ''profile''), (listingURL, ''listing''),
            (''http://forum.sa-mp.com/showthread.php?p=77'', ''thread'')]
           [((userNamePath, ''profile''), [''Kalcor'']),
            ((firstPostHrefPath, ''listing''), [''showthread.php?p=77''])]"

text \<open>The profile page shows the user name and eleven message blocks, each of them its
  own author and body.\<close>

definition elevenBlocks :: "string list" where
  "elevenBlocks = [''m01'', ''m02'', ''m03'', ''m04'', ''m05'', ''m06'', ''m07'', ''m08'',
                   ''m09'', ''m10'', ''m11'']"

definition elevenMessages :: "string env" where
  "elevenMessages =
     \<lparr>GetHTMLRoot = (\<lambda>url. if url = profileURL then Inr ''profile''
                            else Inl (New ''no such page'')),
      Compile = (\<lambda>expr. True),
      Iter = (\<lambda>path context.
                if context = ''profile''
                then (if path = userNamePath then [''Kalcor'']
                      else if path = mainPath then elevenBlocks else [])
                else if path = userPath \<or> path = textPath then [context] else []),
      NodeString = (\<lambda>node. node)\<rparr>"

text \<open>A profile page with three message blocks, the second without a body; a listing
  whose first post is in a thread that shows a reputation.\<close>

definition threeBlocks :: "string env" where
  "threeBlocks =
     forum [(profileURL, ''profile''), (listingURL, ''listing''),
            (''http://forum.sa-mp.com/showthread.php?p=77#post77'', ''thread'')]
           [((userNamePath, ''profile''), [''\<newline> Kalcor \<newline>'']),
            ((totalPostsPath, ''profile''), [''Total Posts: 1,500'']),
            ((firstPostHrefPath, ''listing''), [''showthread.php?p=77#post77'']),
            ((reputationPath ''post77'', ''thread''), [''Reputation: 42'']),
            ((mainPath, ''profile''), [''b1'', ''b2'', ''b3'']),
            ((userPath, ''b1''), [''alice'']),
            ((textPath, ''b1''), [''hi'']),
            ((userPath, ''b2''), [''bob'']),
            ((userPath, ''b3''), [''carol'']),
            ((textPath, ''b3''), [''yo''])]"

text \<open>A listing whose first entry has the given title and reference, and a page behind
  the reference in which the given expression matches the given nodes.\<close>

definition listingWith :: "string \<Rightarrow> string \<Rightarrow> string \<Rightarrow> string list \<Rightarrow> string env" where
  "listingWith title href expr nodes =
     forum [(listingURL, ''listing''), (''http://forum.sa-mp.com/'' @ href, ''thread'')]
           [((titlePath, ''listing''), [title]),
            ((latestHrefPath, ''listing''), [href]),
            ((expr, ''thread''), nodes)]"

section \<open>The change detector: one tick\<close>

lemma appendError_TotalPosts: "TotalPosts (appendError err r) = TotalPosts r"
  by (simp add: appendError_def split: option.splits)

text \<open>A profile that comes with a top-level error has no total posts: the fetch of the
  page or the user name failed before \<open>getTotalPosts\<close> was called.\<close>

lemma GetUserProfilePage_error_zero:
  assumes "GetUserProfilePage ev url = Inr (profile, Some e)"
  shows "TotalPosts profile = 0"
  using assms
  by (auto simp: GetUserProfilePage_def Let_def zero_UserProfile_def
           split: sum.splits prod.splits option.splits)

lemma tick_returns:
  assumes "GetUserProfilePage ev (''http://forum.sa-mp.com/member.php?u='' @ ident)
             = Inr (profile, err)"
  shows "tick ev ident st =
     Inr (let st1 = (if err \<noteq> None
                      then st\<lparr>logged := logged st @ [''failed to poll user profile'']\<rparr>
                      else st)
           in if lastPostCount st = - 1 then st1\<lparr>lastPostCount := TotalPosts profile\<rparr>
              else if lastPostCount st < TotalPosts profile
              then st1\<lparr>fnCalls := fnCalls st + 1, lastPostCount := TotalPosts profile\<rparr>
              else st1)"
  using assms by (simp add: tick_def Let_def)

lemma tick_cases:
  assumes "tick ev ident st = Inr st'"
  obtains profile err where
    "GetUserProfilePage ev (''http://forum.sa-mp.com/member.php?u='' @ ident)
       = Inr (profile, err)"
  using assms by (auto simp: tick_def split: sum.splits prod.splits)

text \<open>In the sentinel state a failed fetch is logged, and then the loop body goes on
  with the profile that came with the error: its zero total posts become
  \<open>lastPostCount\<close>.\<close>

lemma sentinel_tick_failed_fetch:
  assumes "lastPostCount st = - 1"
    and g: "GetUserProfilePage ev (''http://forum.sa-mp.com/member.php?u='' @ ident)
              = Inr (profile, Some e)"
  shows "tick ev ident st =
           Inr (st\<lparr>logged := logged st @ [''failed to poll user profile''],
                    lastPostCount := 0\<rparr>)"
  using assms(1) tick_returns [OF g, of st] GetUserProfilePage_error_zero [OF g]
  by (simp add: Let_def)

text \<open>
  C1. The claim: a tick in the sentinel state whose profile fetch returns an error changes
  nothing, so that \<open>lastPostCount\<close> still holds \<open>-1\<close> afterwards. The loop body does
  otherwise. With no page reachable on the first tick, \<open>lastPostCount\<close> is \<open>0\<close> after
  it and the callback has not run; when the second tick then sees 500 posts, the callback
  runs, although this is the first profile the detector has ever fetched.
\<close>

theorem failed_first_fetch_becomes_baseline:
  "newPostAlert ''3'' [offline] =
     Inr \<lparr>lastPostCount = 0, fnCalls = 0, logged = [''failed to poll user profile'']\<rparr> \<and>
   newPostAlert ''3'' [offline, profileShowing ''Total Posts: 500''] =
     Inr \<lparr>lastPostCount = 500, fnCalls = 1, logged = [''failed to poll user profile'']\<rparr>"
  by code_simp

text \<open>A tick that starts in the sentinel state and whose profile fetch succeeds does not
  invoke the callback and records the observed total posts; with total posts from \<open>0\<close>
  upwards the detector is in the tracking state afterwards.\<close>

lemma sentinel_tick_successful_fetch:
  assumes "lastPostCount st = - 1"
    and "GetUserProfilePage ev (''http://forum.sa-mp.com/member.php?u='' @ ident)
           = Inr (profile, None)"
  shows "tick ev ident st = Inr (st\<lparr>lastPostCount := TotalPosts profile\<rparr>) \<and>
         fnCalls (st\<lparr>lastPostCount := TotalPosts profile\<rparr>) = fnCalls st \<and>
         (0 \<le> TotalPosts profile \<longrightarrow>
            phase (st\<lparr>lastPostCount := TotalPosts profile\<rparr>) = Tracking)"
  using assms(1) tick_returns [OF assms(2), of st] by (simp add: phase_def)

text \<open>
  C4. The claim: from the sentinel, the first tick whose profile fetch succeeds never
  invokes the callback and records the observed total posts as the baseline. That holds
  where this tick starts in the sentinel state, as the lemma above shows; it does not when
  a failed tick has come before. With no page reachable on the first tick, the profile
  comes with an error and \<open>lastPostCount\<close> is \<open>0\<close> after it. The second tick is the
  first whose fetch succeeds, it sees 500 posts, and it invokes the callback.
\<close>

theorem first_successful_fetch_fires_after_failed_tick:
  "GetUserProfilePage offline (''http://forum.sa-mp.com/member.php?u='' @ ''3'') =
     Inr (\<lparr>UserName = [], JoinDate = [], TotalPosts = 0, Reputation = 0, BioText = [],
            VisitorMessages = [], Errors = []\<rparr>,
          Some (Wrap (New ''no such page'') ''failed to get HTML root for user page'')) \<and>
   newPostAlert ''3'' [offline] =
     Inr \<lparr>lastPostCount = 0, fnCalls = 0, logged = [''failed to poll user profile'']\<rparr> \<and>
   GetUserProfilePage (profileShowing ''Total Posts: 500'')
       (''http://forum.sa-mp.com/member.php?u='' @ ''3'') =
     Inr (\<lparr>UserName = ''Kalcor'', JoinDate = [], TotalPosts = 500, Reputation = 0,
            BioText = [], VisitorMessages = [],
            Errors = [New ''join date xmlpath did not return a result'',
                      Wrap (New ''no such page'') ''cannot get user's posts'',
                      New ''user bio xmlpath did not return a result'',
                      New ''visitor messages xmlpath did not return a result'']\<rparr>, None) \<and>
   tick (profileShowing ''Total Posts: 500'') ''3''
       \<lparr>lastPostCount = 0, fnCalls = 0, logged = [''failed to poll user profile'']\<rparr> =
     Inr \<lparr>lastPostCount = 500, fnCalls = 1, logged = [''failed to poll user profile'']\<rparr> \<and>
   newPostAlert ''3'' [offline, profileShowing ''Total Posts: 500''] =
     Inr \<lparr>lastPostCount = 500, fnCalls = 1, logged = [''failed to poll user profile'']\<rparr>"
  by code_simp

section \<open>The change detector: the tracking state\<close>

text \<open>
  What a tick does in the tracking state, with baseline \<open>b\<close>. After a successful fetch
  it compares the observed total posts with \<open>b\<close>. After a failed fetch it compares the
  zero of the profile that came with the error: that leaves a baseline from \<open>0\<close> upwards
  alone, and passes for an increase when the baseline is below \<open>-1\<close>.
\<close>

lemma tracking_tick:
  assumes "lastPostCount st = b" and "b \<noteq> - 1"
    and g: "GetUserProfilePage ev (''http://forum.sa-mp.com/member.php?u='' @ ident)
              = Inr (profile, err)"
  shows "(err = None \<and> TotalPosts profile = b \<longrightarrow> tick ev ident st = Inr st) \<and>
         (err = None \<and> b < TotalPosts profile \<longrightarrow>
            tick ev ident st =
              Inr (st\<lparr>fnCalls := fnCalls st + 1, lastPostCount := TotalPosts profile\<rparr>)) \<and>
         (err \<noteq> None \<and> 0 \<le> b \<longrightarrow>
            tick ev ident st =
              Inr (st\<lparr>logged := logged st @ [''failed to poll user profile'']\<rparr>)) \<and>
         (err \<noteq> None \<and> b < - 1 \<longrightarrow>
            tick ev ident st =
              Inr (st\<lparr>logged := logged st @ [''failed to poll user profile''],
                       fnCalls := fnCalls st + 1, lastPostCount := 0\<rparr>))"
proof -
  have z: "TotalPosts profile = 0" if "err \<noteq> None"
    using that g GetUserProfilePage_error_zero by (cases err) auto
  show ?thesis
    using assms(1,2) tick_returns [OF g, of st] z by (auto simp: Let_def)
qed

text \<open>
  C5. In the tracking state with a baseline \<open>b\<close> of the data model, \<open>0\<close> or more: a
  tick that observes \<open>b\<close> invokes no callback and leaves the state as it is; a tick that
  observes more than \<open>b\<close> invokes the callback once and records the new value; a tick
  whose fetch fails invokes no callback and leaves the baseline at \<open>b\<close> (it logs the
  error).
\<close>

theorem tracking_tick_in_domain:
  assumes "lastPostCount st = b" and "0 \<le> b"
    and g: "GetUserProfilePage ev (''http://forum.sa-mp.com/member.php?u='' @ ident)
              = Inr (profile, err)"
  shows "phase st = Tracking \<and>
         (err = None \<and> TotalPosts profile = b \<longrightarrow> tick ev ident st = Inr st) \<and>
         (err = None \<and> b < TotalPosts profile \<longrightarrow>
            tick ev ident st =
              Inr (st\<lparr>fnCalls := fnCalls st + 1, lastPostCount := TotalPosts profile\<rparr>)) \<and>
         (err \<noteq> None \<longrightarrow>
            tick ev ident st =
              Inr (st\<lparr>logged := logged st @ [''failed to poll user profile'']\<rparr>) \<and>
            fnCalls (st\<lparr>logged := logged st @ [''failed to poll user profile'']\<rparr>)
              = fnCalls st \<and>
            lastPostCount (st\<lparr>logged := logged st @ [''failed to poll user profile'']\<rparr>)
              = b)"
proof -
  from assms(2) have n: "b \<noteq> - 1" by simp
  have p: "phase st = Tracking"
    using assms(1) n by (simp add: phase_def)
  show ?thesis
    using p assms(1,2) tracking_tick [OF assms(1) n g] by simp
qed

text \<open>The ticks of the specification's example, from baseline 500: one that sees 500
  posts, one that sees 501, one without network.\<close>

theorem tracking_tick_in_domain_witness:
  "lastPostCount \<lparr>lastPostCount = 500, fnCalls = 0, logged = []\<rparr> = 500 \<and> (0 :: int) \<le> 500 \<and>
   phase \<lparr>lastPostCount = 500, fnCalls = 0, logged = []\<rparr> = Tracking \<and>
   tick (profileShowing ''Total Posts: 500'') ''3''
       \<lparr>lastPostCount = 500, fnCalls = 0, logged = []\<rparr> =
     Inr \<lparr>lastPostCount = 500, fnCalls = 0, logged = []\<rparr> \<and>
   tick (profileShowing ''Total Posts: 501'') ''3''
       \<lparr>lastPostCount = 500, fnCalls = 0, logged = []\<rparr> =
     Inr \<lparr>lastPostCount = 501, fnCalls = 1, logged = []\<rparr> \<and>
   tick offline ''3'' \<lparr>lastPostCount = 500, fnCalls = 0, logged = []\<rparr> =
     Inr \<lparr>lastPostCount = 500, fnCalls = 0, logged = [''failed to poll user profile'']\<rparr>"
proof -
  let ?s = "\<lparr>lastPostCount = 500, fnCalls = 0, logged = []\<rparr>"
  let ?errs = "[New ''join date xmlpath did not return a result'',
                Wrap (New ''no such page'') ''cannot get user's posts'',
                New ''user bio xmlpath did not return a result'',
                New ''visitor messages xmlpath did not return a result'']"
  have h1: "lastPostCount ?s = 500" and h2: "(0 :: int) \<le> 500"
    by simp_all
  have g1: "GetUserProfilePage (profileShowing ''Total Posts: 500'')
              (''http://forum.sa-mp.com/member.php?u='' @ ''3'') =
            Inr (\<lparr>UserName = ''Kalcor'', JoinDate = [], TotalPosts = 500, Reputation = 0,
                   BioText = [], VisitorMessages = [], Errors = ?errs\<rparr>, None)"
    by code_simp
  have g2: "GetUserProfilePage (profileShowing ''Total Posts: 501'')
              (''http://forum.sa-mp.com/member.php?u='' @ ''3'') =
            Inr (\<lparr>UserName = ''Kalcor'', JoinDate = [], TotalPosts = 501, Reputation = 0,
                   BioText = [], VisitorMessages = [], Errors = ?errs\<rparr>, None)"
    by code_simp
  have g3: "GetUserProfilePage offline (''http://forum.sa-mp.com/member.php?u='' @ ''3'') =
            Inr (zero_UserProfile,
                 Some (Wrap (New ''no such page'') ''failed to get HTML root for user page''))"
    by code_simp
  show ?thesis
    using tracking_tick_in_domain [OF h1 h2 g1] tracking_tick_in_domain [OF h1 h2 g2]
      tracking_tick_in_domain [OF h1 h2 g3]
    by simp
qed

section \<open>The change detector: runs of ticks\<close>

lemma ticks_append:
  "ticks ident (evs @ evs') st =
     (case ticks ident evs st of Inl p \<Rightarrow> Inl p | Inr st' \<Rightarrow> ticks ident evs' st')"
  by (induction evs arbitrary: st) (auto split: sum.splits)

lemma tick_no_decrease:
  assumes "lastPostCount st \<noteq> - 1" and "tick ev ident st = Inr st'"
  shows "lastPostCount st \<le> lastPostCount st'"
proof -
  from assms(2) obtain profile err where
    g: "GetUserProfilePage ev (''http://forum.sa-mp.com/member.php?u='' @ ident)
          = Inr (profile, err)"
    by (rule tick_cases)
  show ?thesis
    using assms tick_returns [OF g, of st] by (auto simp: Let_def split: if_splits)
qed

lemma ticks_nonneg_monotone:
  assumes "0 \<le> lastPostCount st" and "ticks ident evs st = Inr st'"
  shows "lastPostCount st \<le> lastPostCount st'"
  using assms
proof (induction evs arbitrary: st)
  case Nil
  then show ?case by simp
next
  case (Cons ev evs)
  from Cons.prems(2) obtain st1 where
    t: "tick ev ident st = Inr st1" and r: "ticks ident evs st1 = Inr st'"
    by (auto split: sum.splits)
  from Cons.prems(1) have "lastPostCount st \<noteq> - 1" by simp
  then have le: "lastPostCount st \<le> lastPostCount st1"
    using t by (rule tick_no_decrease)
  with Cons.prems(1) have "0 \<le> lastPostCount st1" by simp
  then have "lastPostCount st1 \<le> lastPostCount st'"
    using r by (rule Cons.IH)
  with le show ?case by simp
qed

text \<open>Within the data model a tick leaves \<open>lastPostCount\<close> at \<open>0\<close> or more, from the
  sentinel as from any value of the data model; so every state that a run within the data
  model reaches in the tracking state has a baseline of \<open>0\<close> or more.\<close>

lemma tick_in_domain:
  assumes "nonNegativePosts ev ident" and "tick ev ident st = Inr st'"
    and "lastPostCount st = - 1 \<or> 0 \<le> lastPostCount st"
  shows "0 \<le> lastPostCount st'"
proof -
  from assms(2) obtain profile err where
    g: "GetUserProfilePage ev (''http://forum.sa-mp.com/member.php?u='' @ ident)
          = Inr (profile, err)"
    by (rule tick_cases)
  with assms(1) have "0 \<le> TotalPosts profile"
    by (simp add: nonNegativePosts_def)
  then show ?thesis
    using assms(2,3) tick_returns [OF g, of st] by (auto simp: Let_def split: if_splits)
qed

lemma ticks_in_domain:
  assumes "\<forall>ev \<in> set evs. nonNegativePosts ev ident" and "ticks ident evs st = Inr st'"
    and "lastPostCount st = - 1 \<or> 0 \<le> lastPostCount st"
  shows "lastPostCount st' = - 1 \<or> 0 \<le> lastPostCount st'"
  using assms
proof (induction evs arbitrary: st)
  case Nil
  then show ?case by simp
next
  case (Cons ev evs)
  from Cons.prems(2) obtain st1 where
    t: "tick ev ident st = Inr st1" and r: "ticks ident evs st1 = Inr st'"
    by (auto split: sum.splits)
  from Cons.prems(1) have "nonNegativePosts ev ident" by simp
  then have "0 \<le> lastPostCount st1"
    using t Cons.prems(3) by (rule tick_in_domain)
  then have "lastPostCount st1 = - 1 \<or> 0 \<le> lastPostCount st1" by simp
  with Cons.prems(1) r show ?case
    using Cons.IH by simp
qed

lemma newPostAlert_tracking_baseline:
  assumes "\<forall>ev \<in> set evs. nonNegativePosts ev ident" and "newPostAlert ident evs = Inr st"
    and "phase st = Tracking"
  shows "0 \<le> lastPostCount st"
proof -
  have "lastPostCount st = - 1 \<or> 0 \<le> lastPostCount st"
    using assms(1) assms(2) [unfolded newPostAlert_def]
    by (rule ticks_in_domain) (simp add: initialPollState_def)
  with assms(3) show ?thesis
    by (auto simp: phase_def split: if_splits)
qed

text \<open>A tick that starts with \<open>lastPostCount\<close> other than the sentinel does not lower
  it, and from \<open>0\<close> or more it does not decrease between any two points of a run.\<close>

lemma lastPostCount_non_decreasing:
  "(lastPostCount st \<noteq> - 1 \<and> tick ev ident st = Inr st1 \<longrightarrow>
      lastPostCount st \<le> lastPostCount st1) \<and>
   (0 \<le> lastPostCount st \<and> ticks ident (evs @ evs') st = Inr st'' \<longrightarrow>
      (\<exists>st'. ticks ident evs st = Inr st' \<and>
             lastPostCount st \<le> lastPostCount st' \<and>
             lastPostCount st' \<le> lastPostCount st''))"
proof (intro conjI impI)
  assume "lastPostCount st \<noteq> - 1 \<and> tick ev ident st = Inr st1"
  then show "lastPostCount st \<le> lastPostCount st1"
    using tick_no_decrease by blast
next
  assume a: "0 \<le> lastPostCount st \<and> ticks ident (evs @ evs') st = Inr st''"
  then obtain st' where
    r1: "ticks ident evs st = Inr st'" and r2: "ticks ident evs' st' = Inr st''"
    by (auto simp: ticks_append split: sum.splits)
  from a r1 have le1: "lastPostCount st \<le> lastPostCount st'"
    using ticks_nonneg_monotone by blast
  with a have "0 \<le> lastPostCount st'" by simp
  then have "lastPostCount st' \<le> lastPostCount st''"
    using r2 by (rule ticks_nonneg_monotone)
  with r1 le1 show "\<exists>st'. ticks ident evs st = Inr st' \<and>
             lastPostCount st \<le> lastPostCount st' \<and>
             lastPostCount st' \<le> lastPostCount st''"
    by blast
qed

text \<open>
  C9. Let the first tick of the detector be within the data model (it sees total posts of
  \<open>0\<close> or more, or its fetch fails and it sees the zero of the failed fetch). After
  that tick the detector has left the sentinel state, and over all further ticks,
  whatever they fetch and whether their fetches fail, \<open>lastPostCount\<close> does not
  decrease: between any two later points of the run the later value is at least the
  earlier one.
\<close>

theorem lastPostCount_monotone_after_first_tick:
  assumes "nonNegativePosts ev0 ident"
    and "newPostAlert ident (ev0 # evs @ evs') = Inr st''"
  shows "\<exists>st0 st'. newPostAlert ident [ev0] = Inr st0 \<and> phase st0 = Tracking \<and>
           newPostAlert ident (ev0 # evs) = Inr st' \<and>
           lastPostCount st0 \<le> lastPostCount st' \<and>
           lastPostCount st' \<le> lastPostCount st''"
proof -
  from assms(2) obtain st0 where
    t: "tick ev0 ident initialPollState = Inr st0"
    and r: "ticks ident (evs @ evs') st0 = Inr st''"
    by (auto simp: newPostAlert_def split: sum.splits)
  have "lastPostCount initialPollState = - 1 \<or> 0 \<le> lastPostCount initialPollState"
    by (simp add: initialPollState_def)
  with assms(1) t have n0: "0 \<le> lastPostCount st0"
    by (rule tick_in_domain)
  then have p: "phase st0 = Tracking"
    by (simp add: phase_def)
  from r obtain st' where
    r1: "ticks ident evs st0 = Inr st'" and r2: "ticks ident evs' st' = Inr st''"
    by (auto simp: ticks_append split: sum.splits)
  from n0 r1 have le1: "lastPostCount st0 \<le> lastPostCount st'"
    by (rule ticks_nonneg_monotone)
  with n0 have "0 \<le> lastPostCount st'" by simp
  then have le2: "lastPostCount st' \<le> lastPostCount st''"
    using r2 by (rule ticks_nonneg_monotone)
  from t have a: "newPostAlert ident [ev0] = Inr st0"
    by (simp add: newPostAlert_def)
  from t r1 have b: "newPostAlert ident (ev0 # evs) = Inr st'"
    by (simp add: newPostAlert_def)
  from a p b le1 le2 show ?thesis
    by blast
qed

text \<open>A run of four ticks: 500 posts, no network, 501 posts, no network.\<close>

theorem lastPostCount_monotone_after_first_tick_witness:
  "nonNegativePosts (profileShowing ''Total Posts: 500'') ''3'' \<and>
   newPostAlert ''3'' [profileShowing ''Total Posts: 500''] =
     Inr \<lparr>lastPostCount = 500, fnCalls = 0, logged = []\<rparr> \<and>
   phase \<lparr>lastPostCount = 500, fnCalls = 0, logged = []\<rparr> = Tracking \<and>
   newPostAlert ''3'' (profileShowing ''Total Posts: 500'' # [offline]) =
     Inr \<lparr>lastPostCount = 500, fnCalls = 0, logged = [''failed to poll user profile'']\<rparr> \<and>
   newPostAlert ''3''
       (profileShowing ''Total Posts: 500'' # [offline] @
          [profileShowing ''Total Posts: 501'', offline]) =
     Inr \<lparr>lastPostCount = 501, fnCalls = 1,
          logged = [''failed to poll user profile'', ''failed to poll user profile'']\<rparr> \<and>
   (500 :: int) \<le> 500 \<and> (500 :: int) \<le> 501"
proof -
  let ?w = "profileShowing ''Total Posts: 500''"
  let ?s0 = "\<lparr>lastPostCount = 500, fnCalls = 0, logged = []\<rparr>"
  let ?s1 = "\<lparr>lastPostCount = 500, fnCalls = 0, logged = [''failed to poll user profile'']\<rparr>"
  let ?s2 = "\<lparr>lastPostCount = 501, fnCalls = 1,
              logged = [''failed to poll user profile'', ''failed to poll user profile'']\<rparr>"
  have h1: "nonNegativePosts ?w ''3''"
    by code_simp
  have h2: "newPostAlert ''3'' (?w # [offline] @ [profileShowing ''Total Posts: 501'', offline])
              = Inr ?s2"
    by code_simp
  have e0: "newPostAlert ''3'' [?w] = Inr ?s0"
    by code_simp
  have e1: "newPostAlert ''3'' (?w # [offline]) = Inr ?s1"
    by code_simp
  have p: "phase ?s0 = Tracking"
    by code_simp
  from lastPostCount_monotone_after_first_tick [OF h1 h2] e0 e1
  have "lastPostCount ?s0 \<le> lastPostCount ?s1 \<and> lastPostCount ?s1 \<le> lastPostCount ?s2"
    by auto
  then have "(500 :: int) \<le> 500 \<and> (500 :: int) \<le> 501"
    by simp
  with h1 h2 e0 e1 p show ?thesis
    by blast
qed

section \<open>The visitor messages\<close>

text \<open>The loop appends the message of every complete block to what it was given, in the
  order of the blocks.\<close>

lemma messageLoop_spec:
  "messageLoop ev userPath textPath nodes result =
     result @ map (messageOfBlock ev) (filter (completeBlock ev) nodes)"
  by (induction nodes arbitrary: result)
     (auto simp: PathString_def completeBlock_def messageOfBlock_def split: list.splits)

text \<open>
  C7. Where the three expressions compile, the visitor messages returned are the messages
  of the complete blocks, in the order in which the container query yields the blocks: a
  block whose author query or whose body query finds nothing is left out, and nothing is
  reported for it. There are at most as many messages as blocks. The error is the one of
  the container query, and it is returned exactly when that query matches no node.
\<close>

theorem visitor_messages_of_complete_blocks:
  assumes "Compile ev mainPath" and "Compile ev userPath" and "Compile ev textPath"
  shows "getFirstTenUserVisitorMessages ev root =
           Inr (specVisitorMessages ev root,
                if Iter ev mainPath root = []
                then Some (New ''visitor messages xmlpath did not return a result'')
                else None) \<and>
         length (specVisitorMessages ev root) \<le> length (Iter ev mainPath root)"
  using assms
  by (simp add: getFirstTenUserVisitorMessages_def MustCompile_def PathExists_def
        messageLoop_spec specVisitorMessages_def)

text \<open>Three blocks, the second without a body: the first and the third are returned, and
  no error.\<close>

theorem visitor_messages_of_complete_blocks_witness:
  "Compile threeBlocks mainPath \<and> Compile threeBlocks userPath \<and> Compile threeBlocks textPath \<and>
   Iter threeBlocks mainPath ''profile'' = [''b1'', ''b2'', ''b3''] \<and>
   getFirstTenUserVisitorMessages threeBlocks ''profile'' =
     Inr ([\<lparr>Author = ''alice'', Message = ''hi''\<rparr>, \<lparr>Author = ''carol'', Message = ''yo''\<rparr>], None)"
proof -
  have h: "Compile threeBlocks mainPath" "Compile threeBlocks userPath"
      "Compile threeBlocks textPath"
    by (simp_all add: threeBlocks_def forum_def)
  have s: "specVisitorMessages threeBlocks ''profile'' =
      [\<lparr>Author = ''alice'', Message = ''hi''\<rparr>, \<lparr>Author = ''carol'', Message = ''yo''\<rparr>]"
    by code_simp
  have i: "Iter threeBlocks mainPath ''profile'' = [''b1'', ''b2'', ''b3'']"
    by code_simp
  show ?thesis
    using h i visitor_messages_of_complete_blocks [OF h, of "''profile''"]
    by (simp add: s)
qed

text \<open>
  C3. The claim: the visitor messages of a returned profile are ten at most, even when the
  container holds more than ten blocks. Nothing in \<open>getFirstTenUserVisitorMessages\<close>
  counts the messages: for a profile page with eleven complete blocks the profile has
  eleven visitor messages.
\<close>

theorem eleven_visitor_messages:
  "Iter elevenMessages mainPath ''profile'' =
     [''m01'', ''m02'', ''m03'', ''m04'', ''m05'', ''m06'', ''m07'', ''m08'', ''m09'', ''m10'',
      ''m11''] \<and>
   GetUserProfilePage elevenMessages profileURL =
     Inr (\<lparr>UserName = ''Kalcor'', JoinDate = [], TotalPosts = 0, Reputation = 0, BioText = [],
            VisitorMessages =
              [\<lparr>Author = ''m01'', Message = ''m01''\<rparr>, \<lparr>Author = ''m02'', Message = ''m02''\<rparr>,
               \<lparr>Author = ''m03'', Message = ''m03''\<rparr>, \<lparr>Author = ''m04'', Message = ''m04''\<rparr>,
               \<lparr>Author = ''m05'', Message = ''m05''\<rparr>, \<lparr>Author = ''m06'', Message = ''m06''\<rparr>,
               \<lparr>Author = ''m07'', Message = ''m07''\<rparr>, \<lparr>Author = ''m08'', Message = ''m08''\<rparr>,
               \<lparr>Author = ''m09'', Message = ''m09''\<rparr>, \<lparr>Author = ''m10'', Message = ''m10''\<rparr>,
               \<lparr>Author = ''m11'', Message = ''m11''\<rparr>],
            Errors = [New ''join date xmlpath did not return a result'',
                      New ''total posts xmlpath did not return a result'',
                      Wrap (New ''no such page'') ''cannot get user's posts'',
                      New ''user bio xmlpath did not return a result'']\<rparr>, None) \<and>
   length [\<lparr>Author = ''m01'', Message = ''m01''\<rparr>, \<lparr>Author = ''m02'', Message = ''m02''\<rparr>,
           \<lparr>Author = ''m03'', Message = ''m03''\<rparr>, \<lparr>Author = ''m04'', Message = ''m04''\<rparr>,
           \<lparr>Author = ''m05'', Message = ''m05''\<rparr>, \<lparr>Author = ''m06'', Message = ''m06''\<rparr>,
           \<lparr>Author = ''m07'', Message = ''m07''\<rparr>, \<lparr>Author = ''m08'', Message = ''m08''\<rparr>,
           \<lparr>Author = ''m09'', Message = ''m09''\<rparr>, \<lparr>Author = ''m10'', Message = ''m10''\<rparr>,
           \<lparr>Author = ''m11'', Message = ''m11''\<rparr>] = (11 :: nat)"
  by code_simp

section \<open>The reputation\<close>

text \<open>A reference without \<open>#\<close> is split into one piece, and \<open>[1]\<close> is out of range.
  The page behind the reference has been fetched by then.\<close>

lemma Split_without_separator:
  "CHR ''#'' \<notin> set href \<Longrightarrow> Split href ''#'' = [href]"
  by (induction href) (auto simp: HasPrefix_def)

lemma getReputation_panics_without_fragment:
  assumes "GetHTMLRoot ev (''http://forum.sa-mp.com/search.php?do=finduser&u='' @ forumUserID)
             = Inr root"
    and "Compile ev firstPostHrefPath"
    and "PathString ev firstPostHrefPath root = (href, True)"
    and "GetHTMLRoot ev (''http://forum.sa-mp.com/'' @ href) = Inr root'"
    and "CHR ''#'' \<notin> set href"
  shows "getReputation ev forumUserID = Inl IndexOutOfRange"
  using assms
  by (simp add: getReputation_def MustCompile_def Split_without_separator index_at_def)

text \<open>
  C2. The claim: whatever stage of the reputation pipeline fails, \<open>getReputation\<close>
  returns an error, and never panics, in particular for a reference without \<open>#\<close>. For
  a listing whose first reference is \<open>showthread.php?p=77\<close>, and with the page behind
  it fetched, \<open>getReputation\<close> panics with an index out of range.
\<close>

theorem reputation_panics_on_reference_without_fragment:
  "getReputation noFragment ''3'' = Inl IndexOutOfRange"
  by code_simp

section \<open>The profile assembler: absent fields\<close>

text \<open>An extractor whose query finds nothing returns its error, and every extractor that
  returns an error returns the zero value with it.\<close>

lemma getJoinDate_absent:
  assumes "Compile ev joinDatePath" and "Iter ev joinDatePath root = []"
  shows "getJoinDate ev root = Inr ([], Some (New ''join date xmlpath did not return a result''))"
  using assms by (simp add: getJoinDate_def MustCompile_def PathString_def)

lemma getTotalPosts_absent:
  assumes "Compile ev totalPostsPath" and "Iter ev totalPostsPath root = []"
  shows "getTotalPosts ev root = Inr (0, Some (New ''total posts xmlpath did not return a result''))"
  using assms by (simp add: getTotalPosts_def MustCompile_def PathString_def)

lemma getUserBio_absent:
  assumes "Compile ev userBioPath" and "Iter ev userBioPath root = []"
  shows "getUserBio ev root = Inr ([], Some (New ''user bio xmlpath did not return a result''))"
  using assms by (simp add: getUserBio_def MustCompile_def PathString_def)

lemma getJoinDate_error_zero: "getJoinDate ev root = Inr (v, Some e) \<Longrightarrow> v = []"
  by (auto simp: getJoinDate_def PathString_def split: sum.splits list.splits if_splits)

lemma getTotalPosts_error_zero: "getTotalPosts ev root = Inr (v, Some e) \<Longrightarrow> v = 0"
  by (auto simp: getTotalPosts_def PathString_def split: sum.splits list.splits if_splits)

lemma getReputation_error_zero: "getReputation ev u = Inr (v, Some e) \<Longrightarrow> v = 0"
  by (auto simp: getReputation_def PathString_def split: sum.splits list.splits if_splits)

lemma getUserBio_error_zero: "getUserBio ev root = Inr (v, Some e) \<Longrightarrow> v = []"
  by (auto simp: getUserBio_def PathString_def split: sum.splits list.splits if_splits)

lemma getFirstTenUserVisitorMessages_error_zero:
  "getFirstTenUserVisitorMessages ev root = Inr (v, Some e) \<Longrightarrow> v = []"
  by (auto simp: getFirstTenUserVisitorMessages_def split: sum.splits if_splits)

text \<open>Where no extractor panics, the profile has the value of each extractor in its
  field and the errors of the extractors, one for each that failed, in their order.\<close>

lemma GetUserProfilePage_assembles:
  assumes "GetHTMLRoot ev url = Inr root"
    and "getUserName ev root = Inr (name, None)"
    and "getJoinDate ev root = Inr (date, err1)"
    and "getTotalPosts ev root = Inr (posts, err2)"
    and "getReputation ev (TrimPrefix url ''http://forum.sa-mp.com/member.php?u='') = Inr (reputation, err3)"
    and "getUserBio ev root = Inr (bio, err4)"
    and "getFirstTenUserVisitorMessages ev root = Inr (messages, err5)"
  shows "GetUserProfilePage ev url =
     Inr (\<lparr>UserName = name, JoinDate = date, TotalPosts = posts, Reputation = reputation,
            BioText = bio, VisitorMessages = messages,
            Errors = errorsOf [err1, err2, err3, err4, err5]\<rparr>, None)"
  using assms
  by (simp add: GetUserProfilePage_def Let_def appendError_def zero_UserProfile_def errorsOf_def
           split: option.splits)

text \<open>With the user name found and every other field absent, the reputation pipeline
  returning an error, the profile is the user name, five zero values and five errors.\<close>

lemma GetUserProfilePage_all_absent:
  assumes "GetHTMLRoot ev url = Inr root"
    and "getUserName ev root = Inr (name, None)"
    and "Compile ev joinDatePath" and "Iter ev joinDatePath root = []"
    and "Compile ev totalPostsPath" and "Iter ev totalPostsPath root = []"
    and "getReputation ev (TrimPrefix url ''http://forum.sa-mp.com/member.php?u='')
           = Inr (reputation, Some e)"
    and "Compile ev userBioPath" and "Iter ev userBioPath root = []"
    and "Compile ev mainPath" and "Compile ev userPath" and "Compile ev textPath"
    and "Iter ev mainPath root = []"
  shows "GetUserProfilePage ev url =
     Inr (\<lparr>UserName = name, JoinDate = [], TotalPosts = 0, Reputation = 0,
            BioText = [], VisitorMessages = [],
            Errors = [New ''join date xmlpath did not return a result'',
                      New ''total posts xmlpath did not return a result'',
                      e,
                      New ''user bio xmlpath did not return a result'',
                      New ''visitor messages xmlpath did not return a result'']\<rparr>, None)"
proof -
  have r: "reputation = 0"
    using assms(7) by (rule getReputation_error_zero)
  have m: "getFirstTenUserVisitorMessages ev root =
             Inr ([], Some (New ''visitor messages xmlpath did not return a result''))"
    using assms(10-13)
    by (simp add: getFirstTenUserVisitorMessages_def MustCompile_def PathExists_def)
  show ?thesis
    using GetUserProfilePage_assembles [OF assms(1,2) getJoinDate_absent [OF assms(3,4)]
        getTotalPosts_absent [OF assms(5,6)] assms(7) getUserBio_absent [OF assms(8,9)] m]
    by (simp add: errorsOf_def r)
qed

text \<open>
  C6. The claim: for every profile page with the user name on it,
  \<open>GetUserProfilePage\<close> returns a profile and no error, each absent field being one
  entry of \<open>Errors\<close> and a zero value. That holds where \<open>getReputation\<close> returns,
  as the lemmas above show. It does not return for the listing of C2: the profile page is
  fetched and the user name found, and \<open>GetUserProfilePage\<close> panics.
\<close>

theorem profile_panics_on_reference_without_fragment:
  "GetHTMLRoot noFragment profileURL = Inr ''profile'' \<and>
   getUserName noFragment ''profile'' = Inr (''Kalcor'', None) \<and>
   GetUserProfilePage noFragment profileURL = Inl IndexOutOfRange"
  by code_simp

section \<open>The latest post\<close>

lemma HasPrefix_iff: "HasPrefix s pre \<longleftrightarrow> (\<exists>suf. s = pre @ suf)"
  unfolding HasPrefix_def
  by (metis append_eq_conv_conj append_take_drop_id)

lemma contains_iff: "contains s sub \<longleftrightarrow> (\<exists>pre suf. s = pre @ sub @ suf)"
proof (induction s)
  case Nil
  then show ?case by auto
next
  case (Cons c s)
  show ?case
  proof
    assume "contains (c # s) sub"
    then consider "HasPrefix (c # s) sub" | "contains s sub" by auto
    then show "\<exists>pre suf. c # s = pre @ sub @ suf"
    proof cases
      case 1
      then obtain suf where "c # s = sub @ suf" by (auto simp: HasPrefix_iff)
      then have "c # s = [] @ sub @ suf" by simp
      then show ?thesis by blast
    next
      case 2
      with Cons.IH obtain pre suf where "s = pre @ sub @ suf" by blast
      then have "c # s = (c # pre) @ sub @ suf" by simp
      then show ?thesis by blast
    qed
  next
    assume "\<exists>pre suf. c # s = pre @ sub @ suf"
    then obtain pre suf where e: "c # s = pre @ sub @ suf" by blast
    show "contains (c # s) sub"
    proof (cases pre)
      case Nil
      with e have "HasPrefix (c # s) sub" by (auto simp: HasPrefix_iff)
      then show ?thesis by simp
    next
      case (Cons d pre')
      with e have "s = pre' @ sub @ suf" by simp
      with Cons.IH have "contains s sub" by blast
      then show ?thesis by simp
    qed
  qed
qed

lemma Index_ge: "- 1 \<le> Index s sub"
  by (induction s) (auto simp: Let_def)

lemma Index_minus_one_iff: "Index s sub = - 1 \<longleftrightarrow> \<not> contains s sub"
proof (induction s)
  case Nil
  then show ?case by simp
next
  case (Cons c s)
  have "- 1 \<le> Index s sub" by (rule Index_ge)
  with Cons show ?case by (auto simp: Let_def)
qed

lemma postOf_without_marker:
  assumes "\<not> contains href ''#post''"
  shows "postOf href = (if length href < 4 then Inl SliceBoundsOutOfRange else Inr (drop 4 href))"
proof -
  from assms have "Index href ''#post'' = - 1" by (simp add: Index_minus_one_iff)
  then show ?thesis by (simp add: postOf_def slice_from_def)
qed

lemma getLatestPost_reaches_slice:
  assumes "GetHTMLRoot ev (''http://forum.sa-mp.com/search.php?do=finduser&u='' @ ident) = Inr root"
    and "Compile ev titlePath" and "PathString ev titlePath root = (title, True)"
    and "Compile ev latestHrefPath" and "PathString ev latestHrefPath root = (href, True)"
    and "GetHTMLRoot ev (''http://forum.sa-mp.com/'' @ href) = Inr root'"
  shows "getLatestPost ev ident =
     (case postOf href of
        Inl p \<Rightarrow> Inl p
      | Inr post \<Rightarrow>
     (case MustCompile ev (postMessagePath post) of
        Inl p \<Rightarrow> Inl p
      | Inr path \<Rightarrow>
     (case PathString ev path root' of
        (message, ok) \<Rightarrow>
          if \<not> ok then Inr (([], []), Some (New ''cannot get the post''))
          else Inr ((title, message), None))))"
  using assms by (simp add: getLatestPost_def MustCompile_def)

text \<open>
  C10. Let the first reference of the listing not contain \<open>#post\<close>, and let
  \<open>getLatestPost\<close> get as far as the slice (the listing and the page behind the
  reference are fetched, title and reference found). Then \<open>strings.Index\<close> is \<open>-1\<close>
  and the slice starts at 4. A reference of fewer than four characters makes
  \<open>getLatestPost\<close> panic. A reference of four or more gives no error: its
  characters from the fifth on are taken for the post identifier, and the result is the
  one of the query for that identifier.
\<close>

theorem unguarded_post_slice:
  assumes "\<not> contains href ''#post''"
    and "GetHTMLRoot ev (''http://forum.sa-mp.com/search.php?do=finduser&u='' @ ident) = Inr root"
    and "Compile ev titlePath" and "PathString ev titlePath root = (title, True)"
    and "Compile ev latestHrefPath" and "PathString ev latestHrefPath root = (href, True)"
    and "GetHTMLRoot ev (''http://forum.sa-mp.com/'' @ href) = Inr root'"
  shows "Index href ''#post'' = - 1 \<and> Index href ''#post'' + 5 = 4 \<and>
     (length href < 4 \<longrightarrow> getLatestPost ev ident = Inl SliceBoundsOutOfRange) \<and>
     (4 \<le> length href \<longrightarrow>
        postOf href = Inr (drop 4 href) \<and>
        getLatestPost ev ident =
          (case MustCompile ev (postMessagePath (drop 4 href)) of
             Inl p \<Rightarrow> Inl p
           | Inr path \<Rightarrow>
          (case PathString ev path root' of
             (message, ok) \<Rightarrow>
               if \<not> ok then Inr (([], []), Some (New ''cannot get the post''))
               else Inr ((title, message), None))))"
proof -
  from assms(1) have i: "Index href ''#post'' = - 1"
    by (simp add: Index_minus_one_iff)
  show ?thesis
    using getLatestPost_reaches_slice [OF assms(2-7)] postOf_without_marker [OF assms(1)]
    by (simp add: i)
qed

text \<open>The reference \<open>#p1\<close> panics; the reference \<open>showthread.php?p=77\<close> gives the
  identifier \<open>thread.php?p=77\<close> and, on a page that has such an element, a post.\<close>

theorem unguarded_post_slice_witness:
  "\<not> contains ''#p1'' ''#post'' \<and> length ''#p1'' < 4 \<and>
   getLatestPost (listingWith ''Server update'' ''#p1'' [] []) ''3'' = Inl SliceBoundsOutOfRange \<and>
   \<not> contains ''showthread.php?p=77'' ''#post'' \<and> 4 \<le> length ''showthread.php?p=77'' \<and>
   postOf ''showthread.php?p=77'' = Inr ''thread.php?p=77'' \<and>
   getLatestPost (listingWith ''Server update'' ''showthread.php?p=77''
                    (postMessagePath ''thread.php?p=77'') [''The post.'']) ''3'' =
     Inr ((''Server update'', ''The post.''), None)"
proof -
  let ?short = "listingWith ''Server update'' ''#p1'' [] []"
  let ?long = "listingWith ''Server update'' ''showthread.php?p=77''
                 (postMessagePath ''thread.php?p=77'') [''The post.'']"
  have c: "\<not> contains ''#p1'' ''#post''" "\<not> contains ''showthread.php?p=77'' ''#post''"
    by code_simp+
  have s: "GetHTMLRoot ?short (''http://forum.sa-mp.com/search.php?do=finduser&u='' @ ''3'')
             = Inr ''listing''"
      "Compile ?short titlePath" "PathString ?short titlePath ''listing'' = (''Server update'', True)"
      "Compile ?short latestHrefPath" "PathString ?short latestHrefPath ''listing'' = (''#p1'', True)"
      "GetHTMLRoot ?short (''http://forum.sa-mp.com/'' @ ''#p1'') = Inr ''thread''"
    by code_simp+
  have l: "GetHTMLRoot ?long (''http://forum.sa-mp.com/search.php?do=finduser&u='' @ ''3'')
             = Inr ''listing''"
      "Compile ?long titlePath" "PathString ?long titlePath ''listing'' = (''Server update'', True)"
      "Compile ?long latestHrefPath"
      "PathString ?long latestHrefPath ''listing'' = (''showthread.php?p=77'', True)"
      "GetHTMLRoot ?long (''http://forum.sa-mp.com/'' @ ''showthread.php?p=77'') = Inr ''thread''"
    by code_simp+
  have e: "(case MustCompile ?long (postMessagePath (drop 4 ''showthread.php?p=77'')) of
             Inl p \<Rightarrow> Inl p
           | Inr path \<Rightarrow>
          (case PathString ?long path ''thread'' of
             (message, ok) \<Rightarrow>
               if \<not> ok then Inr (([], []), Some (New ''cannot get the post''))
               else Inr ((''Server update'', message), None))) =
           Inr ((''Server update'', ''The post.''), None)"
    by code_simp
  have n: "length ''#p1'' < 4" "4 \<le> length ''showthread.php?p=77''"
      "drop 4 ''showthread.php?p=77'' = ''thread.php?p=77''"
    by simp_all
  from unguarded_post_slice [OF c(1) s] n(1)
  have a: "getLatestPost ?short ''3'' = Inl SliceBoundsOutOfRange"
    by blast
  from unguarded_post_slice [OF c(2) l] n(2)
  have b: "postOf ''showthread.php?p=77'' = Inr (drop 4 ''showthread.php?p=77'')"
    and "getLatestPost ?long ''3'' =
          (case MustCompile ?long (postMessagePath (drop 4 ''showthread.php?p=77'')) of
             Inl p \<Rightarrow> Inl p
           | Inr path \<Rightarrow>
          (case PathString ?long path ''thread'' of
             (message, ok) \<Rightarrow>
               if \<not> ok then Inr (([], []), Some (New ''cannot get the post''))
               else Inr ((''Server update'', message), None)))"
    by blast+
  with e have d: "getLatestPost ?long ''3'' = Inr ((''Server update'', ''The post.''), None)"
    by (rule_tac trans)
  from b n(3) have b': "postOf ''showthread.php?p=77'' = Inr ''thread.php?p=77''"
    by (rule_tac trans) simp_all
  from c n(1,2) a b' d show ?thesis
    by blast
qed

text \<open>
  C8. For a listing whose first reference is \<open>thread.php?t=9#post123\<close>, the post
  identifier, the part of the reference after \<open>#post\<close>, is \<open>123\<close>, and the query on
  the page behind the reference is the one for the element with the identifier
  \<open>post_message_123\<close>: \<open>getLatestPost\<close> returns what that query finds.
\<close>

theorem latest_post_identifier:
  assumes "GetHTMLRoot ev (''http://forum.sa-mp.com/search.php?do=finduser&u='' @ ident) = Inr root"
    and "Compile ev titlePath" and "PathString ev titlePath root = (title, True)"
    and "Compile ev latestHrefPath"
    and "PathString ev latestHrefPath root = (''thread.php?t=9#post123'', True)"
    and "GetHTMLRoot ev (''http://forum.sa-mp.com/'' @ ''thread.php?t=9#post123'') = Inr root'"
  shows \<open>postOf ''thread.php?t=9#post123'' = Inr ''123'' \<and>
     postMessagePath ''123'' = ''//div[@id="post_message_123"]'' \<and>
     getLatestPost ev ident =
       (case MustCompile ev ''//div[@id="post_message_123"]'' of
          Inl p \<Rightarrow> Inl p
        | Inr path \<Rightarrow>
       (case PathString ev path root' of
          (message, ok) \<Rightarrow>
            if \<not> ok then Inr (([], []), Some (New ''cannot get the post''))
            else Inr ((title, message), None)))\<close>
proof -
  have p: "postOf ''thread.php?t=9#post123'' = Inr ''123''"
    by code_simp
  have q: \<open>postMessagePath ''123'' = ''//div[@id="post_message_123"]''\<close>
    by (simp add: postMessagePath_def)
  show ?thesis
    using getLatestPost_reaches_slice [OF assms] by (simp add: p q)
qed

text \<open>A listing with that reference, and a thread with the element.\<close>

theorem latest_post_identifier_witness:
  \<open>GetHTMLRoot (listingWith ''Server update'' ''thread.php?t=9#post123''
                  (postMessagePath ''123'') [''The update is out.''])
       (''http://forum.sa-mp.com/search.php?do=finduser&u='' @ ''3'') = Inr ''listing'' \<and>
    PathString (listingWith ''Server update'' ''thread.php?t=9#post123''
                  (postMessagePath ''123'') [''The update is out.''])
       latestHrefPath ''listing'' = (''thread.php?t=9#post123'', True) \<and>
    postOf ''thread.php?t=9#post123'' = Inr ''123'' \<and>
    PathString (listingWith ''Server update'' ''thread.php?t=9#post123''
                  (postMessagePath ''123'') [''The update is out.''])
       ''//div[@id="post_message_123"]'' ''thread'' = (''The update is out.'', True) \<and>
    getLatestPost (listingWith ''Server update'' ''thread.php?t=9#post123''
                     (postMessagePath ''123'') [''The update is out.'']) ''3'' =
      Inr ((''Server update'', ''The update is out.''), None)\<close>
proof -
  let ?w = "listingWith ''Server update'' ''thread.php?t=9#post123''
              (postMessagePath ''123'') [''The update is out.'']"
  have h: "GetHTMLRoot ?w (''http://forum.sa-mp.com/search.php?do=finduser&u='' @ ''3'')
             = Inr ''listing''"
      "Compile ?w titlePath" "PathString ?w titlePath ''listing'' = (''Server update'', True)"
      "Compile ?w latestHrefPath"
      "PathString ?w latestHrefPath ''listing'' = (''thread.php?t=9#post123'', True)"
      "GetHTMLRoot ?w (''http://forum.sa-mp.com/'' @ ''thread.php?t=9#post123'') = Inr ''thread''"
    by code_simp+
  have c: \<open>MustCompile ?w ''//div[@id="post_message_123"]'' = Inr ''//div[@id="post_message_123"]''\<close>
    by code_simp
  have q: \<open>PathString ?w ''//div[@id="post_message_123"]'' ''thread'' = (''The update is out.'', True)\<close>
    by code_simp
  from latest_post_identifier [OF h]
  have p: "postOf ''thread.php?t=9#post123'' = Inr ''123''"
    and g: \<open>getLatestPost ?w ''3'' =
       (case MustCompile ?w ''//div[@id="post_message_123"]'' of
          Inl p \<Rightarrow> Inl p
        | Inr path \<Rightarrow>
       (case PathString ?w path ''thread'' of
          (message, ok) \<Rightarrow>
            if \<not> ok then Inr (([], []), Some (New ''cannot get the post''))
            else Inr ((''Server update'', message), None)))\<close>
    by blast+
  have g': "getLatestPost ?w ''3'' = Inr ((''Server update'', ''The update is out.''), None)"
    unfolding g c by (simp add: q)
  from h(1,5) p q g' show ?thesis
    by blast
qed

end
